theory Spec2Isabelle
  imports Main "HOL-Library.Word"
begin

unbundle bit_operations_syntax

section \<open>JavaScript strings and buffers\<close>

text \<open>
  A JavaScript string is a sequence of UTF-16 code units, and \<open>length\<close>, \<open>substring\<close>,
  \<open>trim\<close>, \<open>split\<close> and the regular expressions of the sources (none has the \<open>u\<close> flag)
  all work on code units. A Node \<open>Buffer\<close> is a sequence of bytes.
\<close>

type_synonym jsstring = "16 word list"
type_synonym buffer = "8 word list"

text \<open>String and buffer literals of the sources, written in ASCII.\<close>

definition str :: "string \<Rightarrow> jsstring" where
  "str s = map of_char s"

definition bytes :: "string \<Rightarrow> buffer" where
  "bytes s = map of_char s"

text \<open>
  \<open>String.prototype.trim\<close> removes the code units of ECMAScript's WhiteSpace and
  LineTerminator productions from both ends.
\<close>

definition isWhiteSpace :: "16 word \<Rightarrow> bool" where
  "isWhiteSpace c =
     (c = 0x09 \<or> c = 0x0A \<or> c = 0x0B \<or> c = 0x0C \<or> c = 0x0D \<or> c = 0x20 \<or> c = 0xA0
      \<or> c = 0x1680 \<or> (0x2000 \<le> c \<and> c \<le> 0x200A) \<or> c = 0x2028 \<or> c = 0x2029
      \<or> c = 0x202F \<or> c = 0x205F \<or> c = 0x3000 \<or> c = 0xFEFF)"

definition trim :: "jsstring \<Rightarrow> jsstring" where
  "trim s = rev (dropWhile isWhiteSpace (rev (dropWhile isWhiteSpace s)))"

text \<open>\<open>s.substring(0, n)\<close> is \<open>take n s\<close>; \<open>s.includes(t)\<close>:\<close>

fun includesStr :: "jsstring \<Rightarrow> jsstring \<Rightarrow> bool" where
  "includesStr [] t = (t = [])"
| "includesStr (c # cs) t = (take (length t) (c # cs) = t \<or> includesStr cs t)"

text \<open>\<open>a || b\<close> on strings: the empty string is falsy.\<close>

definition orElse :: "jsstring \<Rightarrow> jsstring \<Rightarrow> jsstring" where
  "orElse a b = (if a = [] then b else a)"

text \<open>\<open>xs.join(sep)\<close>.\<close>

fun join :: "jsstring \<Rightarrow> jsstring list \<Rightarrow> jsstring" where
  "join sep [] = []"
| "join sep [x] = x"
| "join sep (x # y # ys) = x @ sep @ join sep (y # ys)"

text \<open>An integer inside a template literal: its decimal digits.\<close>

fun digits :: "nat \<Rightarrow> jsstring" where
  "digits n = (if n < 10 then [0x30 + of_nat n]
               else digits (n div 10) @ [0x30 + of_nat (n mod 10)])"

declare digits.simps [simp del]

definition numberToString :: "int \<Rightarrow> jsstring" where
  "numberToString i = (if i < 0 then 0x2D # digits (nat (- i)) else digits (nat i))"

subsection \<open>\<open>Buffer.prototype.toString()\<close>\<close>

text \<open>
  Both sources turn every chunk they receive into a string with \<open>chunk.toString()\<close>, that
  is, they decode the bytes of that one chunk as UTF-8. An ill-formed sequence, and a
  sequence that the end of the chunk cuts short, decodes to U+FFFD; a code point beyond
  the basic plane becomes a surrogate pair. The decoder keeps the code point read so far,
  the number of continuation bytes still due, and the range the next byte has to lie in.
\<close>

datatype utf8_state = Start | Need nat nat "8 word" "8 word"

definition utf16 :: "nat \<Rightarrow> jsstring" where
  "utf16 cp =
     (if cp < 0x10000 then [of_nat cp]
      else [of_nat (0xD800 + (cp - 0x10000) div 0x400),
            of_nat (0xDC00 + (cp - 0x10000) mod 0x400)])"

definition utf8_lead :: "8 word \<Rightarrow> jsstring \<times> utf8_state" where
  "utf8_lead b =
     (if b \<le> 0x7F then ([ucast b], Start)
      else if 0xC2 \<le> b \<and> b \<le> 0xDF then ([], Need (unat (b AND 0x1F)) 1 0x80 0xBF)
      else if 0xE0 \<le> b \<and> b \<le> 0xEF then
        ([], Need (unat (b AND 0x0F)) 2 (if b = 0xE0 then 0xA0 else 0x80)
                                       (if b = 0xED then 0x9F else 0xBF))
      else if 0xF0 \<le> b \<and> b \<le> 0xF4 then
        ([], Need (unat (b AND 0x07)) 3 (if b = 0xF0 then 0x90 else 0x80)
                                       (if b = 0xF4 then 0x8F else 0xBF))
      else ([0xFFFD], Start))"

fun utf8_step :: "utf8_state \<Rightarrow> 8 word \<Rightarrow> jsstring \<times> utf8_state" where
  "utf8_step Start b = utf8_lead b"
| "utf8_step (Need cp n lo hi) b =
     (if lo \<le> b \<and> b \<le> hi then
        (if n = 1 then (utf16 (cp * 64 + unat (b AND 0x3F)), Start)
         else ([], Need (cp * 64 + unat (b AND 0x3F)) (n - 1) 0x80 0xBF))
      else (case utf8_lead b of (out, st) \<Rightarrow> (0xFFFD # out, st)))"

fun utf8_decode :: "utf8_state \<Rightarrow> buffer \<Rightarrow> jsstring" where
  "utf8_decode Start [] = []"
| "utf8_decode (Need cp n lo hi) [] = [0xFFFD]"
| "utf8_decode st (b # bs) =
     (case utf8_step st b of (out, st') \<Rightarrow> out @ utf8_decode st' bs)"

definition toString :: "buffer \<Rightarrow> jsstring" where
  "toString chunk = utf8_decode Start chunk"

section \<open>The subprocess supervisor (\<open>executeGeminiCommand\<close>)\<close>

record GeminiCliResult =
  success :: bool
  output_text :: jsstring
  error :: "jsstring option"
  exitCode :: "int option"

text \<open>
  The error object of the child's \<open>error\<close> event (\<open>GeminiError\<close>): its optional \<open>code\<close>
  and its \<open>message\<close>.
\<close>

datatype GeminiError = GeminiError (err_code: "jsstring option") (err_message: jsstring)

definition COMMAND_TIMEOUT_MS :: int where
  "COMMAND_TIMEOUT_MS = 10000"

text \<open>
  What the event loop can deliver to one invocation: a chunk on the child's standard
  output or standard error, \<open>close\<close> with the exit code (\<open>null\<close> when a signal ended the
  child), \<open>error\<close>, and the timer's callback.
\<close>

datatype event =
    StdoutData buffer
  | StderrData buffer
  | Close "int option"
  | ChildError GeminiError
  | TimerFired

text \<open>
  The variables the executor of the promise closes over. \<open>resolved\<close> lists the argument
  of every call of \<open>resolve\<close>, in order; \<open>killed\<close> and \<open>timerCleared\<close> record
  \<open>child.kill('SIGKILL')\<close> and \<open>clearTimeout(timeoutId)\<close>.
\<close>

record supervisor =
  isResolved :: bool
  stdout :: jsstring
  stderr :: jsstring
  killed :: bool
  timerCleared :: bool
  resolved :: "GeminiCliResult list"

definition initial :: supervisor where
  "initial = \<lparr>isResolved = False, stdout = [], stderr = [], killed = False,
              timerCleared = False, resolved = []\<rparr>"

definition timedOutMessage :: jsstring where
  "timedOutMessage =
     str ''Command timed out after '' @ numberToString (COMMAND_TIMEOUT_MS div 1000)
       @ str '' seconds''"

definition onTimeout :: "supervisor \<Rightarrow> supervisor" where
  "onTimeout s =
     (if \<not> isResolved s then
        s\<lparr>isResolved := True, killed := True,
          resolved := resolved s @
            [\<lparr>success = False, output_text = [], error = Some timedOutMessage,
              exitCode = Some 124\<rparr>]\<rparr>
      else s)"

text \<open>\<open>code || d\<close> and \<open>${code}\<close> for an exit code that may be \<open>null\<close>.\<close>

definition codeOr :: "int option \<Rightarrow> int \<Rightarrow> int" where
  "codeOr code d = (case code of None \<Rightarrow> d | Some c \<Rightarrow> if c = 0 then d else c)"

definition codeText :: "int option \<Rightarrow> jsstring" where
  "codeText code = (case code of None \<Rightarrow> str ''null'' | Some c \<Rightarrow> numberToString c)"

definition closeResult :: "supervisor \<Rightarrow> int option \<Rightarrow> GeminiCliResult" where
  "closeResult s code =
     (if code = Some 0 then
        (if trim (stdout s) \<noteq> [] then
           \<lparr>success = True, output_text = trim (stdout s), error = None, exitCode = None\<rparr>
         else
           \<lparr>success = False, output_text = [],
            error = Some (str ''Gemini CLI returned empty response''),
            exitCode = Some (codeOr code 0)\<rparr>)
      else
        \<lparr>success = False, output_text = trim (stdout s),
         error = Some (orElse (trim (stderr s))
                   (str ''Command failed with exit code '' @ codeText code)),
         exitCode = Some (codeOr code 1)\<rparr>)"

definition onClose :: "supervisor \<Rightarrow> int option \<Rightarrow> supervisor" where
  "onClose s code =
     (if \<not> isResolved s then
        s\<lparr>isResolved := True, timerCleared := True,
          resolved := resolved s @ [closeResult s code]\<rparr>
      else s)"

definition errorMessage :: "GeminiError \<Rightarrow> jsstring" where
  "errorMessage err =
     (if err_code err = Some (str ''ENOENT'') then
        str ''Gemini CLI not found. Please ensure it is installed and in your PATH.''
      else if err_code err = Some (str ''ETIMEDOUT'') then timedOutMessage
      else str ''Command execution error: '' @ err_message err)"

definition onError :: "supervisor \<Rightarrow> GeminiError \<Rightarrow> supervisor" where
  "onError s err =
     (if \<not> isResolved s then
        s\<lparr>isResolved := True, timerCleared := True,
          resolved := resolved s @
            [\<lparr>success = False, output_text = [], error = Some (errorMessage err),
              exitCode = Some 1\<rparr>]\<rparr>
      else s)"

fun step :: "supervisor \<Rightarrow> event \<Rightarrow> supervisor" where
  "step s (StdoutData d) = s\<lparr>stdout := stdout s @ toString d\<rparr>"
| "step s (StderrData d) = s\<lparr>stderr := stderr s @ toString d\<rparr>"
| "step s (Close code) = onClose s code"
| "step s (ChildError err) = onError s err"
| "step s TimerFired = onTimeout s"

fun run :: "supervisor \<Rightarrow> event list \<Rightarrow> supervisor" where
  "run s [] = s"
| "run s (e # es) = run (step s e) es"

text \<open>The events that only accumulate output, as opposed to the three that resolve.\<close>

fun isData :: "event \<Rightarrow> bool" where
  "isData (StdoutData d) = True"
| "isData (StderrData d) = True"
| "isData e = False"

text \<open>
  A promise is pending, fulfilled with a value, or rejected with an \<open>Error\<close> (its
  message). A promise takes the value of the first call of \<open>resolve\<close>.
\<close>

datatype 'a promise = Pending | Resolved 'a | Rejected jsstring

definition settled :: "supervisor \<Rightarrow> GeminiCliResult promise" where
  "settled s = (case resolved s of [] \<Rightarrow> Pending | r # rs \<Rightarrow> Resolved r)"

subsection \<open>Simulated mode\<close>

text \<open>
  \<open>toLowerCase\<close> is the runtime's Unicode lower-casing and is a parameter, \<open>lc\<close>, of
  the model. The simulated delay only postpones the result.
\<close>

definition simulateGeminiResponse ::
  "(jsstring \<Rightarrow> jsstring) \<Rightarrow> jsstring \<Rightarrow> jsstring option \<Rightarrow> GeminiCliResult" where
  "simulateGeminiResponse lc prompt model =
     \<lparr>success = True,
      output_text =
        (if includesStr (lc prompt) (str ''2+2'') \<or> includesStr (lc prompt) (str ''2 + 2'') then
           str ''2 + 2 = 4''
         else if includesStr (lc prompt) (str ''hello'') then
           str ''Hello! How can I help you today?''
         else if includesStr (lc prompt) (str ''test'') then
           str ''This is a test response from the MCP server. You asked: ''
             @ [0x22] @ take 50 prompt @ (if length prompt > 50 then str ''...'' else [])
             @ [0x22]
         else
           str ''I received your prompt: '' @ [0x22] @ take 30 prompt
             @ (if length prompt > 30 then str ''...'' else []) @ [0x22]
             @ (case model of
                  None \<Rightarrow> []
                | Some m \<Rightarrow> if m = [] then [] else str '' (using model: '' @ m @ str '')'')
             @ str ''. This is a simulated response since Gemini CLI is in test mode.''),
      error = None, exitCode = None\<rparr>"

subsection \<open>\<open>executeGeminiCommand\<close>\<close>

text \<open>
  One call: the arguments \<open>spawn\<close> was given (\<open>None\<close> when the call never reached
  \<open>spawn\<close>), and the promise the call returns. \<open>TEST_MODE\<close> is read from the environment
  when the module loads; \<open>evs\<close> are the events the event loop delivers to the invocation.
\<close>

record invocation =
  spawnArgs :: "jsstring list option"
  result :: "GeminiCliResult promise"

definition executeGeminiCommand ::
  "bool \<Rightarrow> (jsstring \<Rightarrow> jsstring) \<Rightarrow> event list \<Rightarrow> jsstring \<Rightarrow> jsstring option \<Rightarrow> invocation" where
  "executeGeminiCommand TEST_MODE lc evs prompt model =
     (if TEST_MODE then
        \<lparr>spawnArgs = None, result = Resolved (simulateGeminiResponse lc prompt model)\<rparr>
      else if prompt = [] then
        \<lparr>spawnArgs = None, result = Rejected (str ''Prompt is required and must be a string'')\<rparr>
      else if length (trim prompt) = 0 then
        \<lparr>spawnArgs = None, result = Rejected (str ''Prompt cannot be empty'')\<rparr>
      else if length prompt > 10000 then
        \<lparr>spawnArgs = None,
         result = Rejected (str ''Prompt is too long (max 10000 characters)'')\<rparr>
      else
        \<lparr>spawnArgs =
           Some [str ''-m'',
                 (case model of None \<Rightarrow> str ''gemini-2.5-flash''
                  | Some m \<Rightarrow> orElse m (str ''gemini-2.5-flash'')),
                 str ''-p'', prompt],
         result = settled (run initial evs)\<rparr>)"

subsection \<open>\<open>sanitizePrompt\<close>\<close>

text \<open>
  The two \<open>replace\<close> calls delete every match of \<open>/\0/g\<close> and then every match of
  \<open>/[\x00-\x08\x0B\x0C\x0E-\x1F\x7F]/g\<close>.
\<close>

definition isNull :: "16 word \<Rightarrow> bool" where
  "isNull c = (c = 0x00)"

definition isStripped :: "16 word \<Rightarrow> bool" where
  "isStripped c = (c \<le> 0x08 \<or> c = 0x0B \<or> c = 0x0C \<or> (0x0E \<le> c \<and> c \<le> 0x1F) \<or> c = 0x7F)"

definition sanitizePrompt :: "jsstring \<Rightarrow> jsstring" where
  "sanitizePrompt prompt =
     trim (filter (\<lambda>c. \<not> isStripped c) (filter (\<lambda>c. \<not> isNull c) prompt))"

section \<open>The line framer (\<open>setupJsonValidation\<close>)\<close>

text \<open>
  A value that a call can throw: an \<open>Error\<close> object with its message, or any other value.
  \<open>JSON.parse\<close> and the listeners that were registered on standard input are not code
  of this repository. They are parameters of the model: \<open>parse\<close> gives what
  \<open>JSON.parse\<close> throws on a line (\<open>None\<close> when it returns), and a listener gives what
  it throws on the data it is handed. The original listeners are those registered when
  \<open>setupJsonValidation\<close> runs; \<open>start\<close> calls it before it creates the transport, so
  in the server as it starts there is none, and the list of listeners is empty.
\<close>

datatype thrown = ErrorObject jsstring | OtherValue

type_synonym listener = "jsstring \<Rightarrow> thrown option"

text \<open>The error response; \<open>rpc_id\<close> and \<open>rpc_error\<close> are its fields \<open>id\<close> and \<open>error\<close>.\<close>

record errorData =
  details :: jsstring
  received :: jsstring

record errorObject =
  code :: int
  message :: jsstring
  data :: "errorData option"

record errorResponse =
  jsonrpc :: jsstring
  rpc_id :: "int option"
  rpc_error :: errorObject

text \<open>
  What the handler does to the outside: \<open>Emit i d\<close> calls the \<open>i\<close>-th original listener
  with \<open>Buffer.from(d)\<close>, and \<open>Write r\<close> writes \<open>JSON.stringify(r) + '\n'\<close> to standard
  output. The lines logged to standard error are left out.
\<close>

datatype effect = Emit nat jsstring | Write errorResponse

text \<open>\<open>s.split('\n')\<close>: never empty, and its last element is the text after the last newline.\<close>

fun splitLines :: "jsstring \<Rightarrow> jsstring list" where
  "splitLines [] = [[]]"
| "splitLines (c # cs) =
     (if c = 0x0A then [] # splitLines cs
      else (case splitLines cs of l # ls \<Rightarrow> (c # l) # ls | [] \<Rightarrow> [[c]]))"

definition excerpt :: "jsstring \<Rightarrow> jsstring" where
  "excerpt trimmed = take 100 trimmed @ (if length trimmed > 100 then str ''...'' else [])"

definition parseErrorResponse :: "thrown \<Rightarrow> jsstring \<Rightarrow> errorResponse" where
  "parseErrorResponse parseError trimmed =
     \<lparr>jsonrpc = str ''2.0'', rpc_id = None,
      rpc_error =
        \<lparr>code = - 32700, message = str ''Invalid JSON received'',
         data = Some
           \<lparr>details = (case parseError of ErrorObject m \<Rightarrow> m
                       | OtherValue \<Rightarrow> str ''JSON parsing failed''),
            received = excerpt trimmed\<rparr>\<rparr>\<rparr>"

text \<open>
  The inner loop over the original listeners (each of them a function), from the listener
  with index \<open>i\<close> on. It stops at the first listener that throws and returns what was
  thrown.
\<close>

fun emitToListeners :: "listener list \<Rightarrow> nat \<Rightarrow> jsstring \<Rightarrow> effect list \<times> thrown option" where
  "emitToListeners [] i validData = ([], None)"
| "emitToListeners (l # ls) i validData =
     (case l validData of
        Some t \<Rightarrow> ([Emit i validData], Some t)
      | None \<Rightarrow>
          (case emitToListeners ls (Suc i) validData of
             (effects, t) \<Rightarrow> (Emit i validData # effects, t)))"

text \<open>
  The body of the loop over the lines: the inner \<open>try\<close> holds \<open>JSON.parse\<close> and the calls
  of the listeners, and its \<open>catch\<close> writes the error response.
\<close>

definition processLine ::
  "(jsstring \<Rightarrow> thrown option) \<Rightarrow> listener list \<Rightarrow> jsstring \<Rightarrow> effect list" where
  "processLine parse listeners line =
     (if trim line = [] then []
      else (case parse (trim line) of
              Some parseError \<Rightarrow> [Write (parseErrorResponse parseError (trim line))]
            | None \<Rightarrow>
                (case emitToListeners listeners 0 (trim line @ [0x0A]) of
                   (effects, None) \<Rightarrow> effects
                 | (effects, Some parseError) \<Rightarrow>
                     effects @ [Write (parseErrorResponse parseError (trim line))])))"

fun processLines ::
  "(jsstring \<Rightarrow> thrown option) \<Rightarrow> listener list \<Rightarrow> jsstring list \<Rightarrow> effect list \<Rightarrow> effect list" where
  "processLines parse listeners [] acc = acc"
| "processLines parse listeners (line # lines) acc =
     processLines parse listeners lines (acc @ processLine parse listeners line)"

text \<open>
  The handler of \<open>data\<close> on standard input: from the buffer and a chunk to the new buffer
  and the effects. Nothing of the outer \<open>try\<close> that is modelled throws, so its \<open>catch\<close>
  has no branch here.
\<close>

definition onData ::
  "(jsstring \<Rightarrow> thrown option) \<Rightarrow> listener list \<Rightarrow> jsstring \<Rightarrow> buffer \<Rightarrow> jsstring \<times> effect list" where
  "onData parse listeners buf chunk =
     (let lines = splitLines (buf @ toString chunk)
      in (last lines, processLines parse listeners (butlast lines) []))"

text \<open>The chunks of a stream, one \<open>data\<close> event after the other.\<close>

fun feed ::
  "(jsstring \<Rightarrow> thrown option) \<Rightarrow> listener list \<Rightarrow> jsstring \<Rightarrow> buffer list \<Rightarrow> jsstring \<times> effect list" where
  "feed parse listeners buf [] = (buf, [])"
| "feed parse listeners buf (chunk # chunks) =
     (case onData parse listeners buf chunk of
        (buf', effects) \<Rightarrow>
          (case feed parse listeners buf' chunks of
             (buf'', effects') \<Rightarrow> (buf'', effects @ effects')))"

text \<open>A listener that never throws.\<close>

definition quiet :: listener where
  "quiet validData = None"

section \<open>The tool-call handler\<close>

datatype ErrorCode = MethodNotFound | InvalidParams | InternalError

text \<open>The numbers the SDK gives these codes (those of JSON-RPC).\<close>

fun errorCodeNumber :: "ErrorCode \<Rightarrow> int" where
  "errorCodeNumber MethodNotFound = - 32601"
| "errorCodeNumber InvalidParams = - 32602"
| "errorCodeNumber InternalError = - 32603"

text \<open>
  The value of a property of \<open>request.params.arguments\<close>, as far as the schema tells
  values apart; \<open>JUndefined\<close> is a property that is not there.
\<close>

datatype jsvalue =
  JUndefined | JNull | JBoolean bool | JNumber int | JString jsstring | JArray | JObject

record toolArguments =
  arg_prompt :: jsvalue
  arg_model :: jsvalue

record GeminiQueryRequest =
  req_prompt :: jsstring
  req_model :: "jsstring option"

record zodIssue =
  path :: "jsstring list"
  issue_message :: jsstring

definition receivedType :: "jsvalue \<Rightarrow> jsstring" where
  "receivedType v =
     (case v of JUndefined \<Rightarrow> str ''undefined'' | JNull \<Rightarrow> str ''null''
      | JBoolean b \<Rightarrow> str ''boolean'' | JNumber n \<Rightarrow> str ''number''
      | JString s \<Rightarrow> str ''string'' | JArray \<Rightarrow> str ''array'' | JObject \<Rightarrow> str ''object'')"

text \<open>
  \<open>GeminiQuerySchema.parse\<close>: \<open>prompt\<close> is \<open>z.string().min(1, ...).max(10000, ...)\<close> and
  \<open>model\<close> is \<open>z.string().optional()\<close>. The messages of the two length checks are the
  schema's; the others are the library's. No issue means the parsed request, any issue a
  \<open>ZodError\<close> with the issues.
\<close>

definition promptIssues :: "jsvalue \<Rightarrow> zodIssue list" where
  "promptIssues v =
     (case v of
        JString s \<Rightarrow>
          (if length s < 1 then
             [\<lparr>path = [str ''prompt''], issue_message = str ''Prompt cannot be empty''\<rparr>]
           else [])
          @ (if length s > 10000 then
               [\<lparr>path = [str ''prompt''], issue_message = str ''Prompt too long''\<rparr>]
             else [])
      | JUndefined \<Rightarrow> [\<lparr>path = [str ''prompt''], issue_message = str ''Required''\<rparr>]
      | _ \<Rightarrow> [\<lparr>path = [str ''prompt''],
               issue_message = str ''Expected string, received '' @ receivedType v\<rparr>])"

definition modelIssues :: "jsvalue \<Rightarrow> zodIssue list" where
  "modelIssues v =
     (case v of
        JString s \<Rightarrow> []
      | JUndefined \<Rightarrow> []
      | _ \<Rightarrow> [\<lparr>path = [str ''model''],
               issue_message = str ''Expected string, received '' @ receivedType v\<rparr>])"

definition GeminiQuerySchema_parse ::
  "toolArguments option \<Rightarrow> zodIssue list + GeminiQueryRequest" where
  "GeminiQuerySchema_parse args =
     (case args of
        None \<Rightarrow> Inl [\<lparr>path = [], issue_message = str ''Required''\<rparr>]
      | Some a \<Rightarrow>
          (case (arg_prompt a, promptIssues (arg_prompt a) @ modelIssues (arg_model a)) of
             (JString p, []) \<Rightarrow>
               Inr \<lparr>req_prompt = p,
                    req_model = (case arg_model a of JString m \<Rightarrow> Some m | _ \<Rightarrow> None)\<rparr>
           | (_, issues) \<Rightarrow> Inl issues))"

text \<open>
  The error the handler throws (the code and the message it gives the constructor), and
  how a call of the handler ends. \<open>executed\<close> holds the arguments of the call of
  \<open>executeGeminiCommand\<close> and \<open>spawned\<close> those of \<open>spawn\<close>, \<open>None\<close> when there was no
  such call.
\<close>

record McpError =
  mcp_code :: ErrorCode
  mcp_message :: jsstring

datatype handlerOutcome = Returned jsstring | Threw McpError | NeverSettles

record toolCall =
  executed :: "(jsstring \<times> jsstring option) option"
  spawned :: "jsstring list option"
  response :: handlerOutcome

definition issueText :: "zodIssue \<Rightarrow> jsstring" where
  "issueText e = join (str ''.'') (path e) @ str '': '' @ issue_message e"

definition callTool ::
  "bool \<Rightarrow> (jsstring \<Rightarrow> jsstring) \<Rightarrow> event list \<Rightarrow> jsstring \<Rightarrow> toolArguments option \<Rightarrow> toolCall" where
  "callTool TEST_MODE lc evs name args =
     (if name \<noteq> str ''gemini_query'' then
        \<lparr>executed = None, spawned = None,
         response = Threw \<lparr>mcp_code = MethodNotFound,
                           mcp_message = str ''Unknown tool: '' @ name\<rparr>\<rparr>
      else
        (case GeminiQuerySchema_parse args of
           Inl issues \<Rightarrow>
             \<lparr>executed = None, spawned = None,
              response = Threw \<lparr>mcp_code = InvalidParams,
                mcp_message = str ''Invalid parameters: ''
                  @ join (str '', '') (map issueText issues)\<rparr>\<rparr>
         | Inr validatedArgs \<Rightarrow>
             \<lparr>executed = Some (sanitizePrompt (req_prompt validatedArgs), req_model validatedArgs),
              spawned = spawnArgs (executeGeminiCommand TEST_MODE lc evs
                          (sanitizePrompt (req_prompt validatedArgs)) (req_model validatedArgs)),
              response =
                (case result (executeGeminiCommand TEST_MODE lc evs
                         (sanitizePrompt (req_prompt validatedArgs)) (req_model validatedArgs)) of
                   Pending \<Rightarrow> NeverSettles
                 | Rejected msg \<Rightarrow>
                     Threw \<lparr>mcp_code = InternalError,
                            mcp_message = str ''Failed to execute Gemini query: '' @ msg\<rparr>
                 | Resolved r \<Rightarrow>
                     (if \<not> success r then
                        Threw \<lparr>mcp_code = InternalError,
                               mcp_message = str ''Gemini CLI error: ''
                                 @ (case error r of None \<Rightarrow> str ''Unknown error''
                                    | Some e \<Rightarrow> orElse e (str ''Unknown error''))\<rparr>
                      else Returned (output_text r)))\<rparr>))"

definition thrownCode :: "handlerOutcome \<Rightarrow> ErrorCode option" where
  "thrownCode r = (case r of Threw e \<Rightarrow> Some (mcp_code e) | _ \<Rightarrow> None)"

text \<open>\<open>toLowerCase\<close> on strings of ASCII characters.\<close>

definition asciiLowerCase :: "jsstring \<Rightarrow> jsstring" where
  "asciiLowerCase s = map (\<lambda>c. if 0x41 \<le> c \<and> c \<le> 0x5A then c + 0x20 else c) s"

section \<open>Predicates and examples of the proofs\<close>

text \<open>
  The invariant of the supervisor's variables: the flag \<open>isResolved\<close> is set exactly
  when \<open>resolve\<close> has been called, and then it has been called once.
\<close>

definition invariant :: "supervisor \<Rightarrow> bool" where
  "invariant s = (if isResolved s then length (resolved s) = 1 else resolved s = [])"

text \<open>The \<open>data.received\<close> fields of the error responses among some effects, in order.\<close>

fun receivedExcerpts :: "effect list \<Rightarrow> jsstring list" where
  "receivedExcerpts [] = []"
| "receivedExcerpts (Emit i d # es) = receivedExcerpts es"
| "receivedExcerpts (Write r # es) =
     (case data (rpc_error r) of None \<Rightarrow> [] | Some d \<Rightarrow> [received d]) @ receivedExcerpts es"

text \<open>
  The control characters: the C0 range U+0000 to U+001F, DEL (U+007F) and the C1 range
  U+0080 to U+009F.
\<close>

definition isControl :: "16 word \<Rightarrow> bool" where
  "isControl c = (c \<le> 0x1F \<or> c = 0x7F \<or> (0x80 \<le> c \<and> c \<le> 0x9F))"

text \<open>
  \<open>JSON.parse\<close> on the lines of the examples below: it returns on the two objects, and
  the other lines of the examples are not JSON.
\<close>

definition exampleParse :: "jsstring \<Rightarrow> thrown option" where
  "exampleParse s =
     (if s = str ''{}'' \<or> s = str ''{\"id\":1,\"method\":\"x\"}'' then None
      else Some (ErrorObject (str ''Unexpected token'')))"

section \<open>The supervisor resolves once\<close>

text \<open>
  Once the flag is set, the three handlers that resolve do nothing at all, and no event
  changes the flag, the list of resolutions or the kill.
\<close>

lemma step_resolved_noop:
  "isResolved s \<Longrightarrow> \<not> isData e \<Longrightarrow> step s e = s"
  by (cases e) (simp_all add: onClose_def onError_def onTimeout_def)

lemma step_keeps_resolved:
  "isResolved s \<Longrightarrow> isResolved (step s e) \<and> resolved (step s e) = resolved s
     \<and> killed (step s e) = killed s"
  by (cases e) (simp_all add: onClose_def onError_def onTimeout_def)

lemma run_keeps_resolved:
  "isResolved s \<Longrightarrow> isResolved (run s es) \<and> resolved (run s es) = resolved s
     \<and> killed (run s es) = killed s"
proof (induction es arbitrary: s)
  case Nil
  then show ?case by simp
next
  case (Cons e es)
  from Cons.prems have "isResolved (step s e)" "resolved (step s e) = resolved s"
    "killed (step s e) = killed s"
    using step_keeps_resolved by blast+
  with Cons.IH [of "step s e"] show ?case by simp
qed

lemma run_append: "run s (xs @ ys) = run (run s xs) ys"
  by (induction xs arbitrary: s) simp_all

text \<open>
  Chunks of output leave an invocation pending; the first of the other events resolves it.
\<close>

lemma step_data_pending:
  "isData e \<Longrightarrow> \<not> isResolved s \<Longrightarrow> resolved s = [] \<Longrightarrow>
     \<not> isResolved (step s e) \<and> resolved (step s e) = [] \<and> killed (step s e) = killed s"
  by (cases e) simp_all

lemma run_data_pending:
  "list_all isData es \<Longrightarrow> \<not> isResolved s \<Longrightarrow> resolved s = [] \<Longrightarrow>
     \<not> isResolved (run s es) \<and> resolved (run s es) = []"
proof (induction es arbitrary: s)
  case Nil
  then show ?case by simp
next
  case (Cons e es)
  then have "\<not> isResolved (step s e) \<and> resolved (step s e) = []"
    using step_data_pending [of e s] by simp
  with Cons show ?case by simp
qed

lemma step_first_resolves:
  "\<not> isData e \<Longrightarrow> \<not> isResolved s \<Longrightarrow> resolved s = [] \<Longrightarrow>
     isResolved (step s e) \<and> length (resolved (step s e)) = 1"
  by (cases e) (simp_all add: onClose_def onError_def onTimeout_def)

lemma pending_initial: "\<not> isResolved initial \<and> resolved initial = []"
  by (simp add: initial_def)

lemma pending_after_data:
  "list_all isData pre \<Longrightarrow> \<not> isResolved (run initial pre) \<and> resolved (run initial pre) = []"
  using run_data_pending pending_initial by simp

lemma step_invariant: "invariant s \<Longrightarrow> invariant (step s e)"
  by (cases e) (auto simp: invariant_def onClose_def onError_def onTimeout_def split: if_splits)

lemma run_invariant: "invariant s \<Longrightarrow> invariant (run s es)"
  by (induction es arbitrary: s) (simp_all add: step_invariant)

lemma at_most_one: "length (resolved (run initial evs)) \<le> 1"
proof -
  have "invariant initial" by (simp add: invariant_def initial_def)
  then have "invariant (run initial evs)" by (rule run_invariant)
  then show ?thesis by (simp add: invariant_def split: if_splits)
qed

lemma settled_after_first:
  assumes "list_all isData pre" and "\<not> isData e"
  shows "settled (run initial (pre @ e # post)) = settled (step (run initial pre) e)"
    and "killed (run initial (pre @ e # post)) = killed (step (run initial pre) e)"
proof -
  let ?s = "run initial pre"
  have "\<not> isResolved ?s \<and> resolved ?s = []"
    using run_data_pending [OF assms(1)] pending_initial by simp
  then have "isResolved (step ?s e)"
    using step_first_resolves [OF assms(2)] by simp
  then have "resolved (run (step ?s e) post) = resolved (step ?s e)
      \<and> killed (run (step ?s e) post) = killed (step ?s e)"
    using run_keeps_resolved by blast
  then show "settled (run initial (pre @ e # post)) = settled (step (run initial pre) e)"
    and "killed (run initial (pre @ e # post)) = killed (step (run initial pre) e)"
    by (simp_all add: run_append settled_def)
qed

text \<open>
  Claim C1. However many events are delivered, \<open>resolve\<close> is called at most once. When
  chunks of output \<open>pre\<close> are followed by a first close, error or timer event \<open>e\<close>,
  that event makes the one call, and whatever is delivered afterwards (\<open>post\<close>) leaves
  the reported outcome as \<open>e\<close> made it; a close, an error or a timer callback that comes
  after it changes nothing at all.
\<close>

theorem supervisor_single_outcome:
  assumes "list_all isData pre" and "\<not> isData e"
  shows "length (resolved (run initial evs)) \<le> 1
    \<and> length (resolved (step (run initial pre) e)) = 1
    \<and> resolved (run initial (pre @ e # post)) = resolved (step (run initial pre) e)
    \<and> settled (run initial (pre @ e # post)) = settled (step (run initial pre) e)
    \<and> (\<forall>late. \<not> isData late \<longrightarrow>
          step (run initial (pre @ e # post)) late = run initial (pre @ e # post))"
proof -
  let ?s = "run initial pre"
  have pend: "\<not> isResolved ?s \<and> resolved ?s = []"
    using run_data_pending [OF assms(1)] pending_initial by simp
  then have first: "isResolved (step ?s e) \<and> length (resolved (step ?s e)) = 1"
    using step_first_resolves [OF assms(2)] by simp
  have split: "run initial (pre @ e # post) = run (step ?s e) post"
    by (simp add: run_append)
  have keep: "isResolved (run (step ?s e) post)
      \<and> resolved (run (step ?s e) post) = resolved (step ?s e)"
    using run_keeps_resolved first by blast
  have noop: "\<forall>late. \<not> isData late \<longrightarrow>
      step (run initial (pre @ e # post)) late = run initial (pre @ e # post)"
    using keep split step_resolved_noop by simp
  show ?thesis
    using at_most_one first keep split noop by (simp add: settled_def)
qed

lemmas run_defs = initial_def settled_def onClose_def onError_def onTimeout_def closeResult_def
  errorMessage_def orElse_def codeText_def codeOr_def numberToString_def digits.simps
  toString_def utf8_lead_def bytes_def str_def trim_def isWhiteSpace_def

theorem supervisor_single_outcome_witness:
  "settled (run initial ([StdoutData (bytes ''hi'')] @ Close (Some 0)
       # [TimerFired, ChildError (GeminiError None (str ''late'')), Close (Some 1)]))
     = Resolved \<lparr>success = True, output_text = str ''hi'', error = None, exitCode = None\<rparr>
   \<and> length (resolved (run initial ([StdoutData (bytes ''hi'')] @ Close (Some 0)
       # [TimerFired, ChildError (GeminiError None (str ''late'')), Close (Some 1)]))) = 1"
  using supervisor_single_outcome [where pre = "[StdoutData (bytes ''hi'')]"
      and e = "Close (Some 0)"
      and post = "[TimerFired, ChildError (GeminiError None (str ''late'')), Close (Some 1)]"
      and evs = "[]"]
  by (simp add: run_defs)

section \<open>Exit with code 0\<close>

lemma trim_blank: "list_all isWhiteSpace s \<Longrightarrow> trim s = []"
proof -
  assume "list_all isWhiteSpace s"
  then have "dropWhile isWhiteSpace s = []"
    by (induction s) simp_all
  then show ?thesis by (simp only: trim_def rev.simps dropWhile.simps)
qed

lemma stdout_collected:
  "stdout (run s es) =
     stdout s @ concat (map (\<lambda>e. case e of StdoutData d \<Rightarrow> toString d | _ \<Rightarrow> []) es)"
proof (induction es arbitrary: s)
  case Nil
  then show ?case by simp
next
  case (Cons e es)
  have "stdout (step s e) = stdout s @ (case e of StdoutData d \<Rightarrow> toString d | _ \<Rightarrow> [])"
    by (cases e) (simp_all add: onClose_def onError_def onTimeout_def)
  with Cons.IH [of "step s e"] show ?case by simp
qed

text \<open>
  Claim C2. When the child closes with exit code 0 before any other resolving event, the
  collected standard output (the decoded chunks, in order) is trimmed. A non-empty trimmed
  output is the successful outcome; an empty one, so also an output of whitespace only,
  is a failure whose message notes the empty response.
\<close>

theorem clean_exit_classification:
  assumes "list_all isData pre"
  shows "stdout (run initial pre) =
        concat (map (\<lambda>e. case e of StdoutData d \<Rightarrow> toString d | _ \<Rightarrow> []) pre)
    \<and> settled (run initial (pre @ Close (Some 0) # post)) =
        (if trim (stdout (run initial pre)) \<noteq> [] then
           Resolved \<lparr>success = True, output_text = trim (stdout (run initial pre)),
                     error = None, exitCode = None\<rparr>
         else
           Resolved \<lparr>success = False, output_text = [],
                     error = Some (str ''Gemini CLI returned empty response''),
                     exitCode = Some 0\<rparr>)
    \<and> (list_all isWhiteSpace (stdout (run initial pre)) \<longrightarrow>
         settled (run initial (pre @ Close (Some 0) # post)) =
           Resolved \<lparr>success = False, output_text = [],
                     error = Some (str ''Gemini CLI returned empty response''),
                     exitCode = Some 0\<rparr>)"
proof -
  let ?s = "run initial pre"
  have a: "stdout ?s = concat (map (\<lambda>e. case e of StdoutData d \<Rightarrow> toString d | _ \<Rightarrow> []) pre)"
    by (simp add: stdout_collected initial_def)
  have "settled (run initial (pre @ Close (Some 0) # post)) = settled (step ?s (Close (Some 0)))"
    using settled_after_first(1) [OF assms] by simp
  also have "\<dots> = Resolved (closeResult ?s (Some 0))"
    using pending_after_data [OF assms] by (simp add: onClose_def settled_def)
  finally have b: "settled (run initial (pre @ Close (Some 0) # post)) =
      Resolved (closeResult ?s (Some 0))" .
  show ?thesis
    using a b trim_blank [of "stdout ?s"] by (simp add: closeResult_def codeOr_def)
qed

theorem clean_exit_classification_witness:
  "settled (run initial ([StdoutData (bytes '' \<newline>''), StderrData (bytes ''x'')]
       @ Close (Some 0) # [TimerFired]))
     = Resolved \<lparr>success = False, output_text = [],
                 error = Some (str ''Gemini CLI returned empty response''),
                 exitCode = Some 0\<rparr>
   \<and> settled (run initial ([StdoutData (bytes '' 4''), StdoutData (bytes ''2 \<newline>'')]
       @ Close (Some 0) # []))
     = Resolved \<lparr>success = True, output_text = str ''42'', error = None, exitCode = None\<rparr>"
  using clean_exit_classification [where pre = "[StdoutData (bytes '' \<newline>''), StderrData (bytes ''x'')]"
      and post = "[TimerFired]"]
    clean_exit_classification [where pre = "[StdoutData (bytes '' 4''), StdoutData (bytes ''2 \<newline>'')]"
      and post = "[]"]
  by (simp add: run_defs)

section \<open>Timeout\<close>

lemma timedOutMessage_text: "timedOutMessage = str ''Command timed out after 10 seconds''"
  by (simp add: timedOutMessage_def COMMAND_TIMEOUT_MS_def numberToString_def digits.simps str_def)

text \<open>
  Claim C3. When the timer fires before the child closes or fails, the child is killed
  and the outcome is a failure with exit code 124 whose message names the bound, ten
  seconds.
\<close>

theorem timeout_outcome:
  assumes "list_all isData pre"
  shows "killed (run initial (pre @ TimerFired # post))
    \<and> settled (run initial (pre @ TimerFired # post)) =
        Resolved \<lparr>success = False, output_text = [],
                  error = Some (str ''Command timed out after 10 seconds''),
                  exitCode = Some 124\<rparr>
    \<and> COMMAND_TIMEOUT_MS = 10 * 1000"
proof -
  let ?s = "run initial pre"
  have p: "\<not> isResolved ?s \<and> resolved ?s = []"
    using pending_after_data [OF assms] .
  have "killed (run initial (pre @ TimerFired # post)) = killed (step ?s TimerFired)"
    using settled_after_first(2) [OF assms] by simp
  moreover have "settled (run initial (pre @ TimerFired # post)) = settled (step ?s TimerFired)"
    using settled_after_first(1) [OF assms] by simp
  ultimately show ?thesis
    using p by (simp add: onTimeout_def settled_def timedOutMessage_text COMMAND_TIMEOUT_MS_def)
qed

theorem timeout_outcome_witness:
  "killed (run initial ([StdoutData (bytes ''par'')] @ TimerFired # [Close None]))
   \<and> settled (run initial ([StdoutData (bytes ''par'')] @ TimerFired # [Close None]))
     = Resolved \<lparr>success = False, output_text = [],
                 error = Some (str ''Command timed out after 10 seconds''),
                 exitCode = Some 124\<rparr>"
  using timeout_outcome [where pre = "[StdoutData (bytes ''par'')]" and post = "[Close None]"]
  by simp

section \<open>The shape of every result\<close>

lemma step_results_well_formed:
  assumes "\<forall>r \<in> set (resolved s). (success r \<longrightarrow> output_text r \<noteq> [] \<and> error r = None)
      \<and> (\<not> success r \<longrightarrow> (\<exists>e. error r = Some e \<and> e \<noteq> []))"
  shows "\<forall>r \<in> set (resolved (step s ev)). (success r \<longrightarrow> output_text r \<noteq> [] \<and> error r = None)
      \<and> (\<not> success r \<longrightarrow> (\<exists>e. error r = Some e \<and> e \<noteq> []))"
proof (cases ev)
  case (Close code)
  have "(success (closeResult s code) \<longrightarrow>
           output_text (closeResult s code) \<noteq> [] \<and> error (closeResult s code) = None)
      \<and> (\<not> success (closeResult s code) \<longrightarrow>
           (\<exists>e. error (closeResult s code) = Some e \<and> e \<noteq> []))"
    by (simp add: closeResult_def orElse_def str_def)
  with assms Close show ?thesis by (simp add: onClose_def)
next
  case (ChildError err)
  have "errorMessage err \<noteq> []"
    by (simp add: errorMessage_def timedOutMessage_text str_def)
  with assms ChildError show ?thesis by (simp add: onError_def)
next
  case TimerFired
  with assms show ?thesis by (simp add: onTimeout_def timedOutMessage_text str_def)
qed (use assms in simp_all)

lemma run_results_well_formed:
  assumes "\<forall>r \<in> set (resolved s). (success r \<longrightarrow> output_text r \<noteq> [] \<and> error r = None)
      \<and> (\<not> success r \<longrightarrow> (\<exists>e. error r = Some e \<and> e \<noteq> []))"
  shows "\<forall>r \<in> set (resolved (run s es)). (success r \<longrightarrow> output_text r \<noteq> [] \<and> error r = None)
      \<and> (\<not> success r \<longrightarrow> (\<exists>e. error r = Some e \<and> e \<noteq> []))"
  using assms
proof (induction es arbitrary: s)
  case Nil
  then show ?case by simp
next
  case (Cons e es)
  show ?case
    using Cons.IH [OF step_results_well_formed [OF Cons.prems]] by simp
qed

lemma simulated_well_formed:
  "success (simulateGeminiResponse lc p m) \<and> output_text (simulateGeminiResponse lc p m) \<noteq> []
     \<and> error (simulateGeminiResponse lc p m) = None"
  by (simp add: simulateGeminiResponse_def str_def)

text \<open>
  Claim C9. Whatever \<open>executeGeminiCommand\<close> resolves with, in simulated mode or on any
  path of the supervisor: a success has a non-empty output and no error, and a failure has
  a non-empty error.
\<close>

theorem result_well_formed:
  assumes "result (executeGeminiCommand TEST_MODE lc evs prompt model) = Resolved r"
  shows "(success r \<longrightarrow> output_text r \<noteq> [] \<and> error r = None)
    \<and> (\<not> success r \<longrightarrow> (\<exists>e. error r = Some e \<and> e \<noteq> []))"
proof (cases TEST_MODE)
  case True
  with assms have "r = simulateGeminiResponse lc prompt model"
    by (simp add: executeGeminiCommand_def)
  then show ?thesis using simulated_well_formed by simp
next
  case False
  with assms have "settled (run initial evs) = Resolved r"
    by (simp add: executeGeminiCommand_def split: if_splits)
  then have "r \<in> set (resolved (run initial evs))"
    by (simp add: settled_def split: list.splits)
  moreover have "\<forall>r \<in> set (resolved (run initial evs)).
      (success r \<longrightarrow> output_text r \<noteq> [] \<and> error r = None)
      \<and> (\<not> success r \<longrightarrow> (\<exists>e. error r = Some e \<and> e \<noteq> []))"
    by (rule run_results_well_formed) (simp add: initial_def)
  ultimately show ?thesis by blast
qed

theorem result_well_formed_witness:
  "result (executeGeminiCommand False asciiLowerCase
       [StderrData (bytes '' boom''), Close (Some 2)] (str ''hi'') None)
     = Resolved \<lparr>success = False, output_text = [], error = Some (str ''boom''),
                 exitCode = Some 2\<rparr>
   \<and> result (executeGeminiCommand True asciiLowerCase [] (str ''Hello'') None)
     = Resolved \<lparr>success = True, output_text = str ''Hello! How can I help you today?'',
                 error = None, exitCode = None\<rparr>"
  using result_well_formed [where TEST_MODE = False and lc = asciiLowerCase
      and evs = "[StderrData (bytes '' boom''), Close (Some 2)]" and prompt = "str ''hi''"
      and model = None
      and r = "\<lparr>success = False, output_text = [], error = Some (str ''boom''),
                 exitCode = Some 2\<rparr>"]
    result_well_formed [where TEST_MODE = True and lc = asciiLowerCase
      and evs = "[]" and prompt = "str ''Hello''" and model = None
      and r = "\<lparr>success = True, output_text = str ''Hello! How can I help you today?'',
                 error = None, exitCode = None\<rparr>"]
  by (simp add: executeGeminiCommand_def simulateGeminiResponse_def asciiLowerCase_def run_defs)

section \<open>Simulated mode comes before validation\<close>

text \<open>
  Claim C10. In simulated mode every prompt resolves with the simulated response, a
  success with a non-empty output, and \<open>spawn\<close> is not called. Outside simulated mode
  the empty prompt, a prompt of whitespace only and a prompt of more than 10000 code units
  are rejected with the three validation errors.
\<close>

theorem test_mode_skips_validation:
  "result (executeGeminiCommand True lc evs prompt model) =
       Resolved (simulateGeminiResponse lc prompt model)
   \<and> spawnArgs (executeGeminiCommand True lc evs prompt model) = None
   \<and> success (simulateGeminiResponse lc prompt model)
   \<and> output_text (simulateGeminiResponse lc prompt model) \<noteq> []
   \<and> (prompt = [] \<longrightarrow>
        result (executeGeminiCommand False lc evs prompt model) =
          Rejected (str ''Prompt is required and must be a string''))
   \<and> (prompt \<noteq> [] \<and> trim prompt = [] \<longrightarrow>
        result (executeGeminiCommand False lc evs prompt model) =
          Rejected (str ''Prompt cannot be empty''))
   \<and> (trim prompt \<noteq> [] \<and> length prompt > 10000 \<longrightarrow>
        result (executeGeminiCommand False lc evs prompt model) =
          Rejected (str ''Prompt is too long (max 10000 characters)''))"
  using simulated_well_formed [of lc prompt model]
  by (auto simp: executeGeminiCommand_def trim_def)

theorem test_mode_skips_validation_witness:
  "result (executeGeminiCommand True asciiLowerCase [] [] None)
     = Resolved (simulateGeminiResponse asciiLowerCase [] None)
   \<and> result (executeGeminiCommand False asciiLowerCase [] [] None)
     = Rejected (str ''Prompt is required and must be a string'')
   \<and> result (executeGeminiCommand True asciiLowerCase [] (str ''  '') None)
     = Resolved (simulateGeminiResponse asciiLowerCase (str ''  '') None)
   \<and> result (executeGeminiCommand False asciiLowerCase [] (str ''  '') None)
     = Rejected (str ''Prompt cannot be empty'')
   \<and> result (executeGeminiCommand True asciiLowerCase [] (replicate 10001 0x61) None)
     = Resolved (simulateGeminiResponse asciiLowerCase (replicate 10001 0x61) None)
   \<and> result (executeGeminiCommand False asciiLowerCase [] (replicate 10001 0x61) None)
     = Rejected (str ''Prompt is too long (max 10000 characters)'')"
  using test_mode_skips_validation [where lc = asciiLowerCase and evs = "[]" and prompt = "[]"
      and model = None]
    test_mode_skips_validation [where lc = asciiLowerCase and evs = "[]"
      and prompt = "str ''  ''" and model = None]
    test_mode_skips_validation [where lc = asciiLowerCase and evs = "[]"
      and prompt = "replicate 10001 0x61" and model = None]
  by (simp add: trim_def isWhiteSpace_def str_def)

section \<open>Lines across chunks\<close>

text \<open>
  The lines of a text that continues another: the lines before the last newline of the
  first part stay, and the rest of the first part starts the lines of the second.
\<close>

lemma splitLines_nonempty: "splitLines s \<noteq> []"
  by (induction s) (simp_all split: list.splits)

lemma splitLines_append:
  "splitLines (a @ c) = butlast (splitLines a) @ splitLines (last (splitLines a) @ c)"
proof (induction a)
  case Nil
  then show ?case by simp
next
  case (Cons x a)
  show ?case
  proof (cases "x = 0x0A")
    case True
    with Cons show ?thesis by (simp add: splitLines_nonempty)
  next
    case False
    obtain l ls where S: "splitLines a = l # ls"
      using splitLines_nonempty [of a] by (cases "splitLines a") auto
    show ?thesis
    proof (cases ls)
      case Nil
      with False S Cons show ?thesis by simp
    next
      case (Cons l2 rest)
      with False S Cons.IH show ?thesis by simp
    qed
  qed
qed

lemma processLines_acc:
  "processLines parse ls lines acc = acc @ concat (map (processLine parse ls) lines)"
  by (induction lines arbitrary: acc) simp_all

lemma onData_string:
  "onData parse ls buf chunk =
     (last (splitLines (buf @ toString chunk)),
      concat (map (processLine parse ls) (butlast (splitLines (buf @ toString chunk)))))"
  by (simp add: onData_def processLines_acc Let_def)

text \<open>
  Two chunks give what their concatenation gives whenever decoding them one by one yields
  the same string as decoding them together, which is so when the first is ASCII.
\<close>

lemma feed_two_strings:
  assumes "toString (a @ b) = toString a @ toString b"
  shows "feed parse ls buf [a, b] = feed parse ls buf [a @ b]"
proof -
  let ?A = "splitLines (buf @ toString a)"
  let ?B = "splitLines (last ?A @ toString b)"
  have whole: "splitLines (buf @ toString (a @ b)) = butlast ?A @ ?B"
    using splitLines_append [of "buf @ toString a" "toString b"] assms by simp
  have B: "?B \<noteq> []" by (rule splitLines_nonempty)
  have "last (butlast ?A @ ?B) = last ?B" using B by simp
  moreover have "butlast (butlast ?A @ ?B) = butlast ?A @ butlast ?B"
    using B by (simp add: butlast_append)
  ultimately show ?thesis
    by (simp add: onData_string whole)
qed

lemma utf8_decode_ascii_append:
  "list_all (\<lambda>b. b \<le> 0x7F) a \<Longrightarrow>
     utf8_decode Start (a @ c) = map ucast a @ utf8_decode Start c"
  by (induction a) (simp_all add: utf8_lead_def)

lemma toString_ascii_append:
  "list_all (\<lambda>b. b \<le> 0x7F) a \<Longrightarrow> toString (a @ c) = map ucast a @ toString c"
  by (simp add: toString_def utf8_decode_ascii_append)

lemma toString_ascii:
  "list_all (\<lambda>b. b \<le> 0x7F) a \<Longrightarrow> toString a = map ucast a"
  using toString_ascii_append [of a "[]"] by (simp add: toString_def)

lemma feed_ascii_split:
  assumes "list_all (\<lambda>b. b \<le> 0x7F) a"
  shows "feed parse ls buf [a, b] = feed parse ls buf [a @ b]"
  using assms by (intro feed_two_strings) (simp add: toString_ascii_append toString_ascii)

lemmas eval_defs = str_def bytes_def toString_def utf8_lead_def utf16_def onData_string
  processLine_def trim_def isWhiteSpace_def quiet_def parseErrorResponse_def excerpt_def

text \<open>
  The scenario of the specification: the line for \<open>id\<close> 1, cut inside \<open>method\<close>.
\<close>

lemma scenario_id_1:
  "feed parse ls [] [bytes ''{\"id\":1,\"meth'', bytes ''od\":\"x\"}\<newline>'']
     = feed parse ls [] [bytes ''{\"id\":1,\"method\":\"x\"}\<newline>'']
   \<and> feed parse ls [] [bytes ''{\"id\":1,\"method\":\"x\"}\<newline>'']
     = ([], processLine parse ls (str ''{\"id\":1,\"method\":\"x\"}''))"
  by (simp add: str_def bytes_def toString_def utf8_lead_def onData_string)

lemma scenario_id_1_emitted:
  "snd (feed exampleParse [quiet] [] [bytes ''{\"id\":1,\"meth'', bytes ''od\":\"x\"}\<newline>''])
     = [Emit 0 (str ''{\"id\":1,\"method\":\"x\"}\<newline>'')]"
  by (simp add: eval_defs exampleParse_def)

text \<open>
  With a listener registered, a line cut inside a character is handed on with the
  character replaced: the line \<open>{"a":"\<dots>"}\<close> whose string holds U+00E9, encoded as
  the bytes C3 A9 and cut between these two bytes.
\<close>

lemma cut_character_with_listener:
  "toString (bytes ''{\"a\":\"'' @ [0xC3]) @ toString ([0xA9] @ bytes ''\"}\<newline>'')
     = str ''{\"a\":\"'' @ [0xFFFD, 0xFFFD] @ str ''\"}\<newline>''
   \<and> toString (bytes ''{\"a\":\"'' @ [0xC3] @ [0xA9] @ bytes ''\"}\<newline>'')
     = str ''{\"a\":\"'' @ [0xE9] @ str ''\"}\<newline>''
   \<and> snd (feed parse [quiet] [] [bytes ''{\"a\":\"'' @ [0xC3], [0xA9] @ bytes ''\"}\<newline>''])
     \<noteq> snd (feed parse [quiet] [] [bytes ''{\"a\":\"'' @ [0xC3] @ [0xA9] @ bytes ''\"}\<newline>''])"
  by (simp add: eval_defs split: option.splits)

text \<open>
  Claim C4. The line \<open>{}\<close> followed by a no-break space (U+00A0, the bytes C2 A0) and
  the newline, with no listener registered. In one chunk the no-break space is trimmed
  away, the line \<open>{}\<close> parses and nothing is written. Cut between C2 and A0, each
  chunk is decoded on its own, the two halves become U+FFFD twice, the trimmed line is
  \<open>{}\<close> followed by them, and a \<open>JSON.parse\<close> that returns on \<open>{}\<close> and throws on
  that line makes the handler write the response for invalid JSON: the cut line is
  reported as malformed and the uncut line is not.
\<close>

theorem cut_character_reported_malformed:
  assumes "parse (str ''{}'') = None"
    and "parse (str ''{}'' @ [0xFFFD, 0xFFFD]) = Some e"
  shows "toString (bytes ''{}'' @ [0xC2]) @ toString ([0xA0] @ bytes ''\<newline>'')
        = str ''{}'' @ [0xFFFD, 0xFFFD] @ str ''\<newline>''
    \<and> toString (bytes ''{}'' @ [0xC2, 0xA0] @ bytes ''\<newline>'')
        = str ''{}'' @ [0xA0] @ str ''\<newline>''
    \<and> snd (feed parse [] [] [bytes ''{}'' @ [0xC2], [0xA0] @ bytes ''\<newline>''])
        = [Write (parseErrorResponse e (str ''{}'' @ [0xFFFD, 0xFFFD]))]
    \<and> snd (feed parse [] [] [bytes ''{}'' @ [0xC2, 0xA0] @ bytes ''\<newline>'']) = []"
  using assms by (simp add: eval_defs)

theorem cut_character_reported_malformed_witness:
  "snd (feed exampleParse [] [] [bytes ''{}'' @ [0xC2], [0xA0] @ bytes ''\<newline>''])
     = [Write (parseErrorResponse (ErrorObject (str ''Unexpected token''))
          (str ''{}'' @ [0xFFFD, 0xFFFD]))]
   \<and> snd (feed exampleParse [] [] [bytes ''{}'' @ [0xC2, 0xA0] @ bytes ''\<newline>'']) = []"
  using cut_character_reported_malformed [where parse = exampleParse
      and e = "ErrorObject (str ''Unexpected token'')"]
  by (simp add: exampleParse_def str_def)

section \<open>Malformed and valid lines in one chunk\<close>

lemma emit_quiet:
  "\<forall>l \<in> set ls. \<forall>d. l d = None \<Longrightarrow>
     emitToListeners ls i d = (map (\<lambda>k. Emit k d) [i ..< i + length ls], None)"
proof (induction ls arbitrary: i)
  case Nil
  then show ?case by simp
next
  case (Cons l ls)
  then have "emitToListeners ls (Suc i) d = (map (\<lambda>k. Emit k d) [Suc i ..< Suc i + length ls], None)"
    by (simp del: upt_Suc)
  moreover have "l d = None" using Cons.prems by simp
  moreover have "[i ..< i + length (l # ls)] = i # [Suc i ..< Suc i + length ls]"
    by (simp add: upt_conv_Cons del: upt_Suc)
  ultimately show ?case by (simp del: upt_Suc)
qed

lemma processLine_quiet:
  assumes "\<forall>l \<in> set ls. \<forall>d. l d = None"
  shows "processLine parse ls line =
     (if trim line = [] then []
      else case parse (trim line) of
             Some e \<Rightarrow> [Write (parseErrorResponse e (trim line))]
           | None \<Rightarrow> map (\<lambda>i. Emit i (trim line @ [0x0A])) [0 ..< length ls])"
  using emit_quiet [OF assms, of 0] by (simp add: processLine_def split: option.splits)

text \<open>
  Claim C5. With listeners that do not throw, the effects of one chunk are those of its
  complete lines, in their order: a blank line gives nothing, a line that does not parse
  gives one error response with code -32700, \<open>id\<close> null and the excerpt of the line in
  \<open>data.received\<close>, and a line that parses is handed, trimmed and terminated, to every
  original listener.
\<close>

theorem malformed_lines_isolated:
  assumes "\<forall>l \<in> set listeners. \<forall>d. l d = None"
  shows "snd (onData parse listeners buf chunk) =
      concat (map (\<lambda>t. case parse t of
                Some e \<Rightarrow>
                  [Write \<lparr>jsonrpc = str ''2.0'', rpc_id = None,
                     rpc_error = \<lparr>code = - 32700, message = str ''Invalid JSON received'',
                       data = Some \<lparr>details = (case e of ErrorObject m \<Rightarrow> m
                                                | OtherValue \<Rightarrow> str ''JSON parsing failed''),
                                    received = take 100 t
                                      @ (if length t > 100 then str ''...'' else [])\<rparr>\<rparr>\<rparr>]
              | None \<Rightarrow> map (\<lambda>i. Emit i (t @ [0x0A])) [0 ..< length listeners])
         (filter (\<lambda>t. t \<noteq> []) (map trim (butlast (splitLines (buf @ toString chunk))))))"
proof -
  have line: "processLine parse listeners l =
      concat (map (\<lambda>t. case parse t of
                Some e \<Rightarrow> [Write (parseErrorResponse e t)]
              | None \<Rightarrow> map (\<lambda>i. Emit i (t @ [0x0A])) [0 ..< length listeners])
         (filter (\<lambda>t. t \<noteq> []) (map trim [l])))" for l
    by (simp add: processLine_quiet [OF assms])
  have "concat (map (processLine parse listeners) ls) =
      concat (map (\<lambda>t. case parse t of
                Some e \<Rightarrow> [Write (parseErrorResponse e t)]
              | None \<Rightarrow> map (\<lambda>i. Emit i (t @ [0x0A])) [0 ..< length listeners])
         (filter (\<lambda>t. t \<noteq> []) (map trim ls)))" for ls
  proof (induction ls)
    case Nil
    then show ?case by simp
  next
    case (Cons l ls)
    then show ?case using line [of l] by simp
  qed
  then show ?thesis
    unfolding parseErrorResponse_def excerpt_def by (simp add: onData_string)
qed

theorem malformed_lines_isolated_witness:
  "snd (onData exampleParse [quiet] []
          (bytes ''oops\<newline>{}\<newline>\<newline> nope \<newline>{}\<newline>{'')) =
     [Write (parseErrorResponse (ErrorObject (str ''Unexpected token'')) (str ''oops'')),
      Emit 0 (str ''{}\<newline>''),
      Write (parseErrorResponse (ErrorObject (str ''Unexpected token'')) (str ''nope'')),
      Emit 0 (str ''{}\<newline>'')]"
  using malformed_lines_isolated [of "[quiet]" exampleParse "[]"
      "bytes ''oops\<newline>{}\<newline>\<newline> nope \<newline>{}\<newline>{''"]
  by (simp add: eval_defs exampleParse_def)

section \<open>The excerpt of a malformed line\<close>

lemma receivedExcerpts_append:
  "receivedExcerpts (xs @ ys) = receivedExcerpts xs @ receivedExcerpts ys"
  by (induction xs rule: receivedExcerpts.induct) simp_all

lemma receivedExcerpts_concat:
  "receivedExcerpts (concat xss) = concat (map receivedExcerpts xss)"
  by (induction xss) (simp_all add: receivedExcerpts_append)

lemma emit_no_excerpt: "receivedExcerpts (fst (emitToListeners ls i d)) = []"
proof (induction ls arbitrary: i)
  case Nil
  then show ?case by simp
next
  case (Cons l ls)
  obtain es t where em: "emitToListeners ls (Suc i) d = (es, t)"
    by (cases "emitToListeners ls (Suc i) d") auto
  with Cons [of "Suc i"] have "receivedExcerpts es = []" by simp
  with em show ?case by (simp split: option.splits)
qed

lemma processLine_excerpts:
  "e \<in> set (receivedExcerpts (processLine parse ls line)) \<Longrightarrow> e = excerpt (trim line)"
proof -
  assume a: "e \<in> set (receivedExcerpts (processLine parse ls line))"
  obtain es t where em: "emitToListeners ls 0 (trim line @ [0x0A]) = (es, t)"
    by (cases "emitToListeners ls 0 (trim line @ [0x0A])") auto
  then have "receivedExcerpts es = []"
    using emit_no_excerpt [of ls 0 "trim line @ [0x0A]"] by simp
  with a em show ?thesis
    by (auto simp: processLine_def parseErrorResponse_def receivedExcerpts_append
        split: if_splits option.splits)
qed

lemma splitLines_one_line:
  "0x0A \<notin> set t \<Longrightarrow> splitLines (t @ [0x0A]) = [t, []]"
  by (induction t) auto

lemma trim_replicate: "\<not> isWhiteSpace c \<Longrightarrow> trim (replicate n c) = replicate n c"
  by (simp add: trim_def)

text \<open>
  Claim C7, as the code has it. Every \<open>data.received\<close> is the first 100 code units of
  the trimmed line, followed by the marker \<open>...\<close> when the line is longer: it holds at
  most 100 code units of the line, is at most 103 long, and is longer than 100 exactly
  when the line is.
\<close>

theorem excerpt_bounded:
  "\<forall>e \<in> set (receivedExcerpts (snd (onData parse listeners buf chunk))).
     \<exists>line \<in> set (butlast (splitLines (buf @ toString chunk))).
       e = take 100 (trim line) @ (if length (trim line) > 100 then str ''...'' else [])
       \<and> length e \<le> 103
       \<and> (length e \<le> 100) = (length (trim line) \<le> 100)"
proof
  fix e
  assume "e \<in> set (receivedExcerpts (snd (onData parse listeners buf chunk)))"
  then obtain line where l: "line \<in> set (butlast (splitLines (buf @ toString chunk)))"
    and e: "e \<in> set (receivedExcerpts (processLine parse listeners line))"
    by (auto simp: onData_string receivedExcerpts_concat)
  have "e = excerpt (trim line)" using processLine_excerpts [OF e] .
  then have "e = take 100 (trim line) @ (if length (trim line) > 100 then str ''...'' else [])
       \<and> length e \<le> 103 \<and> (length e \<le> 100) = (length (trim line) \<le> 100)"
    by (auto simp: excerpt_def str_def)
  with l show "\<exists>line \<in> set (butlast (splitLines (buf @ toString chunk))).
       e = take 100 (trim line) @ (if length (trim line) > 100 then str ''...'' else [])
       \<and> length e \<le> 103
       \<and> (length e \<le> 100) = (length (trim line) \<le> 100)"
    by blast
qed

theorem excerpt_bounded_witness:
  "receivedExcerpts (snd (onData exampleParse [quiet] [] (bytes ''{}\<newline>oops\<newline>'')))
     = [str ''oops'']"
  using excerpt_bounded [of exampleParse "[quiet]" "[]" "bytes ''{}\<newline>oops\<newline>''"]
  by (simp add: eval_defs exampleParse_def)

text \<open>
  A malformed line of 101 code units: the field is 103 long.
\<close>

theorem excerpt_longer_than_cap:
  "map length (receivedExcerpts (snd (onData exampleParse [quiet] []
      (replicate 101 0x78 @ [0x0A])))) = [103]"
proof -
  have "list_all (\<lambda>b. b \<le> 0x7F) (replicate 101 (0x78 :: 8 word) @ [0x0A])"
    by (simp add: list_all_iff)
  then have "toString (replicate 101 (0x78 :: 8 word) @ [0x0A]) = replicate 101 0x78 @ [0x0A]"
    by (simp add: toString_ascii)
  moreover have "splitLines (replicate 101 (0x78 :: 16 word) @ [0x0A]) = [replicate 101 0x78, []]"
    by (rule splitLines_one_line) simp
  moreover have "trim (replicate 101 (0x78 :: 16 word)) = replicate 101 0x78"
    by (rule trim_replicate) (simp add: isWhiteSpace_def)
  moreover have "exampleParse (replicate 101 (0x78 :: 16 word))
      = Some (ErrorObject (str ''Unexpected token''))"
  proof -
    have ne: "length s \<noteq> 101 \<Longrightarrow> replicate 101 (0x78 :: 16 word) \<noteq> s" for s
      by auto
    have "replicate 101 (0x78 :: 16 word) \<noteq> str ''{}''"
      "replicate 101 (0x78 :: 16 word) \<noteq> str ''{\"id\":1,\"method\":\"x\"}''"
      by (rule ne, simp add: str_def)+
    then show ?thesis by (simp add: exampleParse_def)
  qed
  ultimately show ?thesis
    by (simp add: onData_string processLine_def parseErrorResponse_def excerpt_def str_def)
qed

section \<open>What \<open>sanitizePrompt\<close> removes\<close>

lemma dropWhile_keeps: "(\<And>x. P x \<Longrightarrow> \<not> Q x) \<Longrightarrow> filter P (dropWhile Q xs) = filter P xs"
  by (induction xs) auto

lemma trim_keeps: "(\<And>x. P x \<Longrightarrow> \<not> isWhiteSpace x) \<Longrightarrow> filter P (trim xs) = filter P xs"
proof -
  assume a: "\<And>x. P x \<Longrightarrow> \<not> isWhiteSpace x"
  have "filter P (trim xs) = rev (filter P (dropWhile isWhiteSpace (rev (dropWhile isWhiteSpace xs))))"
    by (simp add: trim_def rev_filter)
  also have "\<dots> = rev (filter P (rev (dropWhile isWhiteSpace xs)))"
    using dropWhile_keeps [of P isWhiteSpace] a by simp
  also have "\<dots> = filter P (dropWhile isWhiteSpace xs)"
    by (simp add: rev_filter)
  also have "\<dots> = filter P xs"
    using dropWhile_keeps [of P isWhiteSpace] a by simp
  finally show ?thesis .
qed

lemma trim_subset: "x \<in> set (trim xs) \<Longrightarrow> x \<in> set xs"
  by (auto simp: trim_def dest!: set_dropWhileD)

lemma last_dropWhile_same: "dropWhile P ys \<noteq> [] \<Longrightarrow> last (dropWhile P ys) = last ys"
  by (induction ys) (auto split: if_splits)

lemma trim_ends:
  assumes "trim xs \<noteq> []"
  shows "\<not> isWhiteSpace (hd (trim xs)) \<and> \<not> isWhiteSpace (last (trim xs))"
proof -
  let ?a = "dropWhile isWhiteSpace xs"
  let ?b = "dropWhile isWhiteSpace (rev ?a)"
  have b: "?b \<noteq> []" using assms by (simp add: trim_def)
  have a: "?a \<noteq> []"
  proof
    assume "?a = []"
    then have "?b = []" by (simp only: rev.simps dropWhile.simps)
    with b show False by simp
  qed
  have "last (trim xs) = hd ?b" using b by (simp add: trim_def last_rev)
  then have l: "\<not> isWhiteSpace (last (trim xs))" using hd_dropWhile [OF b] by simp
  have "hd (trim xs) = last ?b" using b by (simp add: trim_def hd_rev)
  also have "\<dots> = last (rev ?a)" using b by (rule last_dropWhile_same)
  also have "\<dots> = hd ?a" using a by (simp add: last_rev)
  finally have "\<not> isWhiteSpace (hd (trim xs))" using hd_dropWhile [OF a] by simp
  with l show ?thesis by simp
qed

lemma c0_left: "\<not> isStripped c \<Longrightarrow> c \<le> 0x1F \<Longrightarrow> c = 0x09 \<or> c = 0x0A \<or> c = 0x0D"
  unfolding isStripped_def by (simp add: word_le_nat_alt word_less_nat_alt) unat_arith

lemma c1_not_white: "0x80 \<le> c \<Longrightarrow> c \<le> 0x9F \<Longrightarrow> \<not> isWhiteSpace c"
  unfolding isWhiteSpace_def by (simp add: word_le_nat_alt word_less_nat_alt) unat_arith

lemma c1_not_stripped: "0x80 \<le> c \<Longrightarrow> c \<le> 0x9F \<Longrightarrow> \<not> isStripped c"
  unfolding isStripped_def by (simp add: word_le_nat_alt word_less_nat_alt) unat_arith

lemma stripped_null: "isNull c \<Longrightarrow> isStripped c"
  by (simp add: isNull_def isStripped_def)

lemma sanitizePrompt_one_filter:
  "sanitizePrompt p = trim (filter (\<lambda>c. \<not> isStripped c) p)"
proof -
  have "filter (\<lambda>c. \<not> isStripped c) (filter (\<lambda>c. \<not> isNull c) p)
      = filter (\<lambda>c. \<not> isStripped c) p"
    by (induction p) (auto dest: stripped_null)
  then show ?thesis by (simp only: sanitizePrompt_def)
qed

text \<open>
  Claim C6, as the code has it. The result holds no code unit of U+0000 to U+0008,
  U+000B, U+000C, U+000E to U+001F or U+007F, and neither starts nor ends with
  whitespace. The only C0 characters left are tab, line feed and carriage return (inside
  the text), and every C1 character of the input is kept.
\<close>

theorem sanitizePrompt_removes:
  "sanitizePrompt p = trim (filter (\<lambda>c. \<not> isStripped c) p)
   \<and> list_all (\<lambda>c. \<not> isStripped c) (sanitizePrompt p)
   \<and> (\<forall>c \<in> set (sanitizePrompt p). c \<le> 0x1F \<longrightarrow> c = 0x09 \<or> c = 0x0A \<or> c = 0x0D)
   \<and> (sanitizePrompt p \<noteq> [] \<longrightarrow>
        \<not> isWhiteSpace (hd (sanitizePrompt p)) \<and> \<not> isWhiteSpace (last (sanitizePrompt p)))
   \<and> filter (\<lambda>c. 0x80 \<le> c \<and> c \<le> 0x9F) (sanitizePrompt p)
        = filter (\<lambda>c. 0x80 \<le> c \<and> c \<le> 0x9F) p"
proof -
  let ?f = "filter (\<lambda>c. \<not> isStripped c) p"
  have one: "sanitizePrompt p = trim ?f" by (rule sanitizePrompt_one_filter)
  have clean: "\<not> isStripped c" if "c \<in> set (sanitizePrompt p)" for c
    using that trim_subset [of c ?f] by (simp add: one)
  then have all: "list_all (\<lambda>c. \<not> isStripped c) (sanitizePrompt p)"
    by (simp add: list_all_iff)
  have c0: "\<forall>c \<in> set (sanitizePrompt p). c \<le> 0x1F \<longrightarrow> c = 0x09 \<or> c = 0x0A \<or> c = 0x0D"
    using clean c0_left by blast
  have ends: "sanitizePrompt p \<noteq> [] \<longrightarrow>
        \<not> isWhiteSpace (hd (sanitizePrompt p)) \<and> \<not> isWhiteSpace (last (sanitizePrompt p))"
    using trim_ends [of ?f] by (simp add: one)
  have "filter (\<lambda>c. 0x80 \<le> c \<and> c \<le> 0x9F) (trim ?f) = filter (\<lambda>c. 0x80 \<le> c \<and> c \<le> 0x9F) ?f"
    by (rule trim_keeps) (simp add: c1_not_white)
  also have "\<dots> = filter (\<lambda>c. 0x80 \<le> c \<and> c \<le> 0x9F) p"
    using c1_not_stripped by (auto intro: filter_cong)
  finally have c1: "filter (\<lambda>c. 0x80 \<le> c \<and> c \<le> 0x9F) (sanitizePrompt p)
        = filter (\<lambda>c. 0x80 \<le> c \<and> c \<le> 0x9F) p"
    by (simp add: one)
  show ?thesis using one all c0 ends c1 by blast
qed

theorem sanitizePrompt_removes_witness:
  "sanitizePrompt [0x20, 0x00, 0x48, 0x01, 0x69, 0x09, 0x85, 0x7F, 0x21, 0x0A]
     = [0x48, 0x69, 0x09, 0x85, 0x21]"
  using sanitizePrompt_removes [of "[0x20, 0x00, 0x48, 0x01, 0x69, 0x09, 0x85, 0x7F, 0x21, 0x0A]"]
  by (simp add: isStripped_def trim_def isWhiteSpace_def)

text \<open>
  A tab inside the prompt and a C1 character at its end are both returned.
\<close>

theorem sanitizePrompt_keeps_tab_and_c1:
  "sanitizePrompt [0x61, 0x09, 0x62, 0x85] = [0x61, 0x09, 0x62, 0x85]
   \<and> list_ex isControl (sanitizePrompt [0x61, 0x09, 0x62, 0x85])"
  by (simp add: sanitizePrompt_def isStripped_def isNull_def trim_def isWhiteSpace_def
      isControl_def)

section \<open>Validation before execution\<close>

lemma long_prompt_issue:
  "length p > 10000 \<Longrightarrow> \<exists>issues. GeminiQuerySchema_parse (Some \<lparr>arg_prompt = JString p, arg_model = m\<rparr>) = Inl issues"
  by (simp add: GeminiQuerySchema_parse_def promptIssues_def)

lemma empty_prompt_issue:
  "\<exists>issues. GeminiQuerySchema_parse (Some \<lparr>arg_prompt = JString [], arg_model = m\<rparr>) = Inl issues"
  by (simp add: GeminiQuerySchema_parse_def promptIssues_def)

lemma missing_prompt_issue:
  "\<exists>issues. GeminiQuerySchema_parse (Some \<lparr>arg_prompt = JUndefined, arg_model = m\<rparr>) = Inl issues"
  by (simp add: GeminiQuerySchema_parse_def promptIssues_def)

lemma issues_invalid_params:
  "GeminiQuerySchema_parse args = Inl issues \<Longrightarrow>
     callTool tm lc evs (str ''gemini_query'') args =
       \<lparr>executed = None, spawned = None,
        response = Threw \<lparr>mcp_code = InvalidParams,
          mcp_message = str ''Invalid parameters: '' @ join (str '', '') (map issueText issues)\<rparr>\<rparr>"
  by (simp add: callTool_def)

lemma issues_nothing_run:
  "GeminiQuerySchema_parse args = Inl issues \<Longrightarrow>
     executed (callTool tm lc evs name args) = None \<and> spawned (callTool tm lc evs name args) = None"
  by (simp add: callTool_def)

lemma valid_prompt_parsed:
  "1 \<le> length q \<Longrightarrow> length q \<le> 10000 \<Longrightarrow>
     GeminiQuerySchema_parse (Some \<lparr>arg_prompt = JString q, arg_model = JUndefined\<rparr>)
       = Inr \<lparr>req_prompt = q, req_model = None\<rparr>"
  by (cases q) (simp_all add: GeminiQuerySchema_parse_def promptIssues_def modelIssues_def)

text \<open>
  Claim C8. A call of \<open>gemini_query\<close> whose prompt is longer than 10000 code units throws
  \<open>InvalidParams\<close>, and neither \<open>executeGeminiCommand\<close> nor \<open>spawn\<close> is called,
  whatever the tool's name. An empty and a missing prompt throw \<open>InvalidParams\<close> too.
  A valid request whose execution fails or is rejected throws \<open>InternalError\<close>, a
  different code.
\<close>

theorem oversized_prompt_rejected:
  assumes "length p > 10000"
  shows "thrownCode (response (callTool tm lc evs (str ''gemini_query'')
             (Some \<lparr>arg_prompt = JString p, arg_model = m\<rparr>))) = Some InvalidParams
    \<and> response (callTool tm lc evs (str ''gemini_query'')
             (Some \<lparr>arg_prompt = JString p, arg_model = JUndefined\<rparr>))
        = Threw \<lparr>mcp_code = InvalidParams,
                 mcp_message = str ''Invalid parameters: prompt: Prompt too long''\<rparr>
    \<and> executed (callTool tm lc evs name (Some \<lparr>arg_prompt = JString p, arg_model = m\<rparr>)) = None
    \<and> spawned (callTool tm lc evs name (Some \<lparr>arg_prompt = JString p, arg_model = m\<rparr>)) = None
    \<and> thrownCode (response (callTool tm lc evs (str ''gemini_query'')
             (Some \<lparr>arg_prompt = JString [], arg_model = m\<rparr>))) = Some InvalidParams
    \<and> thrownCode (response (callTool tm lc evs (str ''gemini_query'')
             (Some \<lparr>arg_prompt = JUndefined, arg_model = m\<rparr>))) = Some InvalidParams
    \<and> errorCodeNumber InvalidParams \<noteq> errorCodeNumber InternalError
    \<and> (1 \<le> length q \<and> length q \<le> 10000
          \<and> result (executeGeminiCommand tm lc evs (sanitizePrompt q) None) = Resolved r
          \<and> \<not> success r \<longrightarrow>
        thrownCode (response (callTool tm lc evs (str ''gemini_query'')
             (Some \<lparr>arg_prompt = JString q, arg_model = JUndefined\<rparr>))) = Some InternalError)
    \<and> (1 \<le> length q \<and> length q \<le> 10000
          \<and> result (executeGeminiCommand tm lc evs (sanitizePrompt q) None) = Rejected msg \<longrightarrow>
        thrownCode (response (callTool tm lc evs (str ''gemini_query'')
             (Some \<lparr>arg_prompt = JString q, arg_model = JUndefined\<rparr>))) = Some InternalError)"
proof -
  obtain i1 where i1: "GeminiQuerySchema_parse (Some \<lparr>arg_prompt = JString p, arg_model = m\<rparr>) = Inl i1"
    using long_prompt_issue [OF assms] by blast
  obtain i2 where i2: "GeminiQuerySchema_parse (Some \<lparr>arg_prompt = JString [], arg_model = m\<rparr>) = Inl i2"
    using empty_prompt_issue by blast
  obtain i3 where i3: "GeminiQuerySchema_parse (Some \<lparr>arg_prompt = JUndefined, arg_model = m\<rparr>) = Inl i3"
    using missing_prompt_issue by blast
  have a: "thrownCode (response (callTool tm lc evs (str ''gemini_query'')
             (Some \<lparr>arg_prompt = JString p, arg_model = m\<rparr>))) = Some InvalidParams"
    by (simp add: issues_invalid_params [OF i1] thrownCode_def)
  have b: "response (callTool tm lc evs (str ''gemini_query'')
             (Some \<lparr>arg_prompt = JString p, arg_model = JUndefined\<rparr>))
        = Threw \<lparr>mcp_code = InvalidParams,
                 mcp_message = str ''Invalid parameters: prompt: Prompt too long''\<rparr>"
    using assms
    by (cases p)
      (simp_all add: callTool_def GeminiQuerySchema_parse_def promptIssues_def modelIssues_def
        issueText_def str_def)
  have c: "executed (callTool tm lc evs name (Some \<lparr>arg_prompt = JString p, arg_model = m\<rparr>)) = None
      \<and> spawned (callTool tm lc evs name (Some \<lparr>arg_prompt = JString p, arg_model = m\<rparr>)) = None"
    by (rule issues_nothing_run [OF i1])
  have d: "thrownCode (response (callTool tm lc evs (str ''gemini_query'')
             (Some \<lparr>arg_prompt = JString [], arg_model = m\<rparr>))) = Some InvalidParams"
    by (simp add: issues_invalid_params [OF i2] thrownCode_def)
  have e: "thrownCode (response (callTool tm lc evs (str ''gemini_query'')
             (Some \<lparr>arg_prompt = JUndefined, arg_model = m\<rparr>))) = Some InvalidParams"
    by (simp add: issues_invalid_params [OF i3] thrownCode_def)
  have f: "1 \<le> length q \<and> length q \<le> 10000
          \<and> result (executeGeminiCommand tm lc evs (sanitizePrompt q) None) = Resolved r
          \<and> \<not> success r \<longrightarrow>
        thrownCode (response (callTool tm lc evs (str ''gemini_query'')
             (Some \<lparr>arg_prompt = JString q, arg_model = JUndefined\<rparr>))) = Some InternalError"
    by (simp add: callTool_def valid_prompt_parsed thrownCode_def)
  have g: "1 \<le> length q \<and> length q \<le> 10000
          \<and> result (executeGeminiCommand tm lc evs (sanitizePrompt q) None) = Rejected msg \<longrightarrow>
        thrownCode (response (callTool tm lc evs (str ''gemini_query'')
             (Some \<lparr>arg_prompt = JString q, arg_model = JUndefined\<rparr>))) = Some InternalError"
    by (simp add: callTool_def valid_prompt_parsed thrownCode_def)
  show ?thesis using a b c d e f g by simp
qed

text \<open>
  A prompt of whitespace only is not empty for the schema. It is sanitized to the empty
  string, and \<open>executeGeminiCommand\<close> rejects that outside simulated mode.
\<close>

lemma blank_prompt_reaches_execution:
  "callTool False lc evs (str ''gemini_query'')
       (Some \<lparr>arg_prompt = JString (str ''  ''), arg_model = JUndefined\<rparr>)
     = \<lparr>executed = Some ([], None), spawned = None,
        response = Threw \<lparr>mcp_code = InternalError,
          mcp_message = str ''Failed to execute Gemini query: ''
            @ str ''Prompt is required and must be a string''\<rparr>\<rparr>"
  by (simp add: callTool_def GeminiQuerySchema_parse_def promptIssues_def modelIssues_def
      sanitizePrompt_def isNull_def isStripped_def trim_def isWhiteSpace_def
      executeGeminiCommand_def str_def)

theorem oversized_prompt_rejected_witness:
  "response (callTool False asciiLowerCase [] (str ''gemini_query'')
       (Some \<lparr>arg_prompt = JString (replicate 10001 0x61), arg_model = JUndefined\<rparr>))
     = Threw \<lparr>mcp_code = InvalidParams,
              mcp_message = str ''Invalid parameters: prompt: Prompt too long''\<rparr>
   \<and> spawned (callTool False asciiLowerCase [] (str ''gemini_query'')
       (Some \<lparr>arg_prompt = JString (replicate 10001 0x61), arg_model = JUndefined\<rparr>)) = None
   \<and> thrownCode (response (callTool False asciiLowerCase [Close (Some 1)] (str ''gemini_query'')
       (Some \<lparr>arg_prompt = JString (str ''hi''), arg_model = JUndefined\<rparr>))) = Some InternalError"
proof -
  have r: "result (executeGeminiCommand False asciiLowerCase [Close (Some 1)]
             (sanitizePrompt (str ''hi'')) None)
      = Resolved \<lparr>success = False, output_text = [],
                  error = Some (str ''Command failed with exit code 1''), exitCode = Some 1\<rparr>"
    by (simp add: executeGeminiCommand_def sanitizePrompt_def str_def isStripped_def isNull_def
        trim_def isWhiteSpace_def settled_def initial_def onClose_def closeResult_def orElse_def
        codeText_def codeOr_def numberToString_def digits.simps)
  show ?thesis
    using oversized_prompt_rejected [where p = "replicate 10001 0x61" and tm = False
        and lc = asciiLowerCase and evs = "[]" and m = JUndefined
        and name = "str ''gemini_query''"]
      oversized_prompt_rejected [where p = "replicate 10001 0x61" and tm = False
        and lc = asciiLowerCase and evs = "[Close (Some 1)]" and q = "str ''hi''"
        and r = "\<lparr>success = False, output_text = [],
                  error = Some (str ''Command failed with exit code 1''), exitCode = Some 1\<rparr>"]
      r
    by (simp add: str_def)
qed

end
